theory Spec2Isabelle
  imports Complex_Main "HOL-Library.Multiset"
begin

section \<open>NumPy float64 values\<close>

text \<open>
  The notebook \<^verbatim>\<open>12/SMD.ipynb\<close> computes with NumPy float64 arrays. A float64 value is
  a real number or one of the three IEEE special values. NumPy array arithmetic answers a
  division by zero with \<open>inf\<close> or \<open>nan\<close> (and a warning), not with an exception.
  Signed zeros are not distinguished: a zero divisor counts as \<open>+0.0\<close>.

  The functions \<open>np_add\<close>, \<open>np_mul\<close>, ... below give the exact result of an operation
  on the operands, before it is rounded to a float64; rounding follows in the next
  section.
\<close>

datatype npfloat = Fin real | PInf | NInf | NaN

definition inf_of_sign :: "real \<Rightarrow> npfloat" where
  "inf_of_sign s = (if s = 0 then NaN else if 0 < s then PInf else NInf)"

fun np_add :: "npfloat \<Rightarrow> npfloat \<Rightarrow> npfloat" where
  "np_add (Fin a) (Fin b) = Fin (a + b)"
| "np_add NaN y = NaN"
| "np_add x NaN = NaN"
| "np_add PInf NInf = NaN"
| "np_add NInf PInf = NaN"
| "np_add PInf y = PInf"
| "np_add x PInf = PInf"
| "np_add NInf y = NInf"
| "np_add x NInf = NInf"

fun np_neg :: "npfloat \<Rightarrow> npfloat" where
  "np_neg (Fin a) = Fin (- a)"
| "np_neg PInf = NInf"
| "np_neg NInf = PInf"
| "np_neg NaN = NaN"

definition np_sub :: "npfloat \<Rightarrow> npfloat \<Rightarrow> npfloat" where
  "np_sub x y = np_add x (np_neg y)"

fun np_mul :: "npfloat \<Rightarrow> npfloat \<Rightarrow> npfloat" where
  "np_mul (Fin a) (Fin b) = Fin (a * b)"
| "np_mul NaN y = NaN"
| "np_mul x NaN = NaN"
| "np_mul (Fin a) PInf = inf_of_sign a"
| "np_mul (Fin a) NInf = inf_of_sign (- a)"
| "np_mul PInf (Fin b) = inf_of_sign b"
| "np_mul NInf (Fin b) = inf_of_sign (- b)"
| "np_mul PInf PInf = PInf"
| "np_mul PInf NInf = NInf"
| "np_mul NInf PInf = NInf"
| "np_mul NInf NInf = PInf"

fun np_div :: "npfloat \<Rightarrow> npfloat \<Rightarrow> npfloat" where
  "np_div (Fin a) (Fin b) = (if b = 0 then inf_of_sign a else Fin (a / b))"
| "np_div NaN y = NaN"
| "np_div x NaN = NaN"
| "np_div (Fin a) PInf = Fin 0"
| "np_div (Fin a) NInf = Fin 0"
| "np_div PInf (Fin b) = (if b < 0 then NInf else PInf)"
| "np_div NInf (Fin b) = (if b < 0 then PInf else NInf)"
| "np_div PInf PInf = NaN"
| "np_div PInf NInf = NaN"
| "np_div NInf PInf = NaN"
| "np_div NInf NInf = NaN"

fun np_sqrt :: "npfloat \<Rightarrow> npfloat" where
  "np_sqrt (Fin a) = (if a < 0 then NaN else Fin (sqrt a))"
| "np_sqrt PInf = PInf"
| "np_sqrt NInf = NaN"
| "np_sqrt NaN = NaN"

text \<open>\<^verbatim>\<open>np.clip(x, lo, hi)\<close> for finite bounds: \<open>nan\<close> stays \<open>nan\<close>; nothing is rounded.\<close>

fun np_clip :: "real \<Rightarrow> real \<Rightarrow> npfloat \<Rightarrow> npfloat" where
  "np_clip lo hi (Fin a) = Fin (min (max a lo) hi)"
| "np_clip lo hi PInf = Fin hi"
| "np_clip lo hi NInf = Fin lo"
| "np_clip lo hi NaN = NaN"

fun is_finite :: "npfloat \<Rightarrow> bool" where
  "is_finite (Fin a) = True"
| "is_finite x = False"

text \<open>
  Exact addition is a commutative monoid, so an exact sum of an array is
  \<^const>\<open>sum_list\<close>.
\<close>

instantiation npfloat :: comm_monoid_add
begin

definition zero_npfloat :: npfloat where
  "zero_npfloat = Fin 0"

definition plus_npfloat :: "npfloat \<Rightarrow> npfloat \<Rightarrow> npfloat" where
  "plus_npfloat x y = np_add x y"

instance
proof
  fix a b c :: npfloat
  show "a + b + c = a + (b + c)"
    unfolding plus_npfloat_def by (cases a; cases b; cases c) simp_all
  show "a + b = b + a"
    unfolding plus_npfloat_def by (cases a; cases b) simp_all
  show "0 + a = a"
    unfolding plus_npfloat_def zero_npfloat_def by (cases a) simp_all
qed

end

section \<open>Rounding\<close>

text \<open>
  Every float64 operation returns its exact result rounded to a float64. The rounding is
  a parameter \<open>r\<close> of the NumPy functions below: what is proved for every \<open>r\<close> does not
  depend on how results are rounded; \<open>r = Fin\<close> is exact arithmetic; \<^verbatim>\<open>round64\<close> is
  the rounding of IEEE binary64 (to the nearest float64, ties to the even significand,
  53 significant bits, exponents from \<open>-1022\<close> to \<open>1023\<close>, overflow to \<open>inf\<close>).
\<close>

type_synonym rounding = "real \<Rightarrow> npfloat"

fun fl :: "rounding \<Rightarrow> npfloat \<Rightarrow> npfloat" where
  "fl r (Fin a) = r a"
| "fl r PInf = PInf"
| "fl r NInf = NInf"
| "fl r NaN = NaN"

definition fl_add :: "rounding \<Rightarrow> npfloat \<Rightarrow> npfloat \<Rightarrow> npfloat" where
  "fl_add r x y = fl r (np_add x y)"

definition fl_sub :: "rounding \<Rightarrow> npfloat \<Rightarrow> npfloat \<Rightarrow> npfloat" where
  "fl_sub r x y = fl r (np_sub x y)"

definition fl_mul :: "rounding \<Rightarrow> npfloat \<Rightarrow> npfloat \<Rightarrow> npfloat" where
  "fl_mul r x y = fl r (np_mul x y)"

definition fl_div :: "rounding \<Rightarrow> npfloat \<Rightarrow> npfloat \<Rightarrow> npfloat" where
  "fl_div r x y = fl r (np_div x y)"

definition fl_sqrt :: "rounding \<Rightarrow> npfloat \<Rightarrow> npfloat" where
  "fl_sqrt r x = fl r (np_sqrt x)"

text \<open>
  The float64 nearest to a real \<open>x\<close>: with \<open>2^e \<le> |x| < 2^(e+1)\<close> (and \<open>e\<close> at
  least \<open>-1022\<close>, below which the spacing stays that of the subnormal numbers) the
  float64 numbers around \<open>x\<close> are the integer multiples of \<open>q = 2^(e-52)\<close>;
  \<open>x / q\<close> is rounded to the nearest integer, a tie to the even one, and a result of
  magnitude \<open>2^1024\<close> or more is an overflow to \<open>inf\<close> of that sign.
\<close>

definition pow2 :: "int \<Rightarrow> real" where
  "pow2 k = (if 0 \<le> k then 2 ^ nat k else 1 / 2 ^ nat (- k))"

definition round_even :: "real \<Rightarrow> int" where
  "round_even x =
     (let f = \<lfloor>x\<rfloor>; d = x - of_int f
      in if d < 1 / 2 then f else if 1 / 2 < d then f + 1 else if even f then f else f + 1)"

definition round64 :: rounding where
  "round64 x =
     (if x = 0 then Fin 0
      else
        let e = max \<lfloor>log 2 \<bar>x\<bar>\<rfloor> (- 1022);
            q = pow2 (e - 52);
            y = q * of_int (round_even (x / q))
        in if pow2 1024 \<le> \<bar>y\<bar> then inf_of_sign x else Fin y)"

section \<open>NumPy array functions used by the notebook\<close>

text \<open>A one-dimensional float64 array is a list; the exceptions Python raises are values.\<close>

datatype error = KeyError string | ValueError

type_synonym array = "npfloat list"

text \<open>
  Elementwise arithmetic of two one-dimensional arrays with NumPy broadcasting: equal
  lengths pair up, an array of length one is stretched, anything else raises
  \<^verbatim>\<open>ValueError\<close>.
\<close>

definition broadcast2 :: "(npfloat \<Rightarrow> npfloat \<Rightarrow> npfloat) \<Rightarrow> array \<Rightarrow> array \<Rightarrow> error + array" where
  "broadcast2 f xs ys =
     (if length xs = length ys then Inr (map2 f xs ys)
      else if length xs = 1 then Inr (map (f (hd xs)) ys)
      else if length ys = 1 then Inr (map (\<lambda>x. f x (hd ys)) xs)
      else Inl ValueError)"

text \<open>
  The sum of an array: the elements are added one after the other, each addition rounded
  (\<open>0.0 + a[0]\<close> is \<open>a[0]\<close>). This is the loop NumPy runs on fewer than eight
  elements; it sums longer arrays in blocks, which changes the order of the additions and
  nothing else. The float64 results computed below are of arrays of at most three
  elements; what is proved for every rounding, or for exact arithmetic, does not depend on
  the order of the additions.
\<close>

fun np_sum :: "rounding \<Rightarrow> array \<Rightarrow> npfloat" where
  "np_sum r [] = Fin 0"
| "np_sum r (x # xs) = foldl (fl_add r) x xs"

text \<open>\<^verbatim>\<open>np.mean(a)\<close>: the sum over the count; the empty array gives \<open>0/0 = nan\<close>.\<close>

definition np_mean :: "rounding \<Rightarrow> array \<Rightarrow> npfloat" where
  "np_mean r a = fl_div r (np_sum r a) (Fin (real (length a)))"

text \<open>
  \<^verbatim>\<open>np.var(a, ddof)\<close>: the mean is subtracted, the deviations are squared and summed,
  and the sum is divided by \<open>max (N - ddof) 0\<close>. The notebook calls it with the
  default \<open>ddof = 0\<close>.
\<close>

definition np_var :: "rounding \<Rightarrow> array \<Rightarrow> nat \<Rightarrow> npfloat" where
  "np_var r a ddof =
     (let arrmean = fl_div r (np_sum r a) (Fin (real (length a)));
          x = map (\<lambda>v. fl_sub r v arrmean) a;
          ret = np_sum r (map (\<lambda>v. fl_mul r v v) x);
          rcount = max (int (length a) - int ddof) 0
      in fl_div r ret (Fin (real_of_int rcount)))"

type_synonym mat2 = "(npfloat \<times> npfloat) \<times> (npfloat \<times> npfloat)"

text \<open>
  The product of two rows, \<^verbatim>\<open>dot\<close> inside \<^verbatim>\<open>np.cov\<close>: the products are rounded, then
  summed. (NumPy leaves the order of these additions to its linear-algebra library.)
\<close>

definition np_dot :: "rounding \<Rightarrow> array \<Rightarrow> array \<Rightarrow> npfloat" where
  "np_dot r xs ys = np_sum r (map2 (fl_mul r) xs ys)"

text \<open>
  \<^verbatim>\<open>np.cov(x, y)\<close> for two one-dimensional arrays (defaults: \<open>ddof = 1\<close>): the arrays
  are stacked as the rows of a matrix, which raises \<^verbatim>\<open>ValueError\<close> when their lengths
  differ; each row is centred, and the products of the rows are scaled by
  \<open>1 / (N - 1)\<close>, where a factor \<open>N - 1 \<le> 0\<close> is replaced by \<open>0.0\<close> (a warning,
  no exception).
\<close>

definition np_cov :: "rounding \<Rightarrow> array \<Rightarrow> array \<Rightarrow> error + mat2" where
  "np_cov r x y =
     (if length x \<noteq> length y then Inl ValueError
      else
        let fact = int (length x) - 1;
            fact = (if fact \<le> 0 then 0 else fact);
            dx = map (\<lambda>v. fl_sub r v (np_mean r x)) x;
            dy = map (\<lambda>v. fl_sub r v (np_mean r y)) y;
            s = fl_div r (Fin 1) (Fin (real_of_int fact))
        in Inr ((fl_mul r (np_dot r dx dx) s, fl_mul r (np_dot r dx dy) s),
                (fl_mul r (np_dot r dy dx) s, fl_mul r (np_dot r dy dy) s)))"

text \<open>
  \<^verbatim>\<open>np.corrcoef(x, y)\<close>: the covariance matrix, its rows and then its columns divided by
  the square roots of its diagonal, clipped to \<open>[-1, 1]\<close>.
\<close>

definition np_corrcoef :: "rounding \<Rightarrow> array \<Rightarrow> array \<Rightarrow> error + mat2" where
  "np_corrcoef r x y =
     (case np_cov r x y of
        Inl err \<Rightarrow> Inl err
      | Inr ((c00, c01), (c10, c11)) \<Rightarrow>
          let s0 = fl_sqrt r c00; s1 = fl_sqrt r c11;
              q = (\<lambda>c si sj. np_clip (- 1) 1 (fl_div r (fl_div r c si) sj))
          in Inr ((q c00 s0 s0, q c01 s0 s1), (q c10 s1 s0, q c11 s1 s1)))"

section \<open>The moment function\<close>

text \<open>
  \<^verbatim>\<open>moments_fun = lambda w,con,lab:
     np.array([np.corrcoef(w,con)[0,1], np.mean(lab), np.var(con)])\<close>
\<close>

definition corr01 :: "rounding \<Rightarrow> array \<Rightarrow> array \<Rightarrow> error + npfloat" where
  "corr01 r x y = (case np_corrcoef r x y of Inl err \<Rightarrow> Inl err | Inr R \<Rightarrow> Inr (snd (fst R)))"

definition moments_fun :: "rounding \<Rightarrow> array \<Rightarrow> array \<Rightarrow> array \<Rightarrow> error + array" where
  "moments_fun r w con lab =
     (case corr01 r w con of
        Inl err \<Rightarrow> Inl err
      | Inr c \<Rightarrow> Inr [c, np_mean r lab, np_var r con 0])"


text \<open>
  Reordering the individuals: \<^verbatim>\<open>a[idx]\<close> for an index array \<open>idx\<close>. For a permutation
  of \<open>[0..<length a]\<close> every read is in range.
\<close>

definition permute :: "nat list \<Rightarrow> 'a list \<Rightarrow> 'a list" where
  "permute idx a = map (\<lambda>i. a ! i) idx"

section \<open>The objective as the notebook builds it\<close>

text \<open>
  The parameters are a Python dictionary from names to floats (\<^verbatim>\<open>par['gamma']\<close>,
  \<^verbatim>\<open>par['tau']\<close>, \<^verbatim>\<open>par['sigma']\<close>); reading a missing key raises \<^verbatim>\<open>KeyError\<close>.
\<close>

type_synonym params = "string \<rightharpoonup> real"

definition getitem :: "params \<Rightarrow> string \<Rightarrow> error + real" where
  "getitem par k = (case par k of None \<Rightarrow> Inl (KeyError k) | Some v \<Rightarrow> Inr v)"





section \<open>The structural model\<close>

text \<open>
  Modelled from the spec: the body of \<^verbatim>\<open>model.c_star\<close> (file \<^verbatim>\<open>model.py\<close>) is not among
  the sources; the notebook imports the module and calls the function on the arrays
  \<open>w\<close> and \<open>e\<close>. Spec 4.1: \<^verbatim>\<open>consumption(w, eps, params)\<close> returns
  \<^verbatim>\<open>gamma*(1-tau)*w + gamma*eps\<close>. The formula is taken exactly as the spec writes it,
  without rounding.
\<close>

definition c_star_val :: "real \<Rightarrow> real \<Rightarrow> npfloat \<Rightarrow> npfloat \<Rightarrow> npfloat" where
  "c_star_val g t w e = np_add (np_mul (Fin (g * (1 - t))) w) (np_mul (Fin g) e)"

text \<open>
  Modelled from the spec: the body of \<^verbatim>\<open>model.l_star\<close> (file \<^verbatim>\<open>model.py\<close>) is not among
  the sources. Spec 4.1: \<^verbatim>\<open>labor(w, eps, params)\<close> returns
  \<^verbatim>\<open>1 - [(1-gamma) + (1-gamma)*eps/((1-tau)*w)]\<close>, labor supplied being one minus leisure,
  and produces a non-finite result when \<open>w = 0\<close> or \<open>tau = 1\<close>. (The notebook's text
  writes \<open>l*\<close> for the bracket, the leisure.)
\<close>

definition l_star_val :: "real \<Rightarrow> real \<Rightarrow> npfloat \<Rightarrow> npfloat \<Rightarrow> npfloat" where
  "l_star_val g t w e =
     np_sub (Fin 1)
       (np_add (Fin (1 - g)) (np_div (np_mul (Fin (1 - g)) e) (np_mul (Fin (1 - t)) w)))"

text \<open>
  Modelled from the spec: \<^verbatim>\<open>model.c_star(w,e,par)\<close> on arrays, the consumption formula
  of spec 4.1 applied elementwise with the parameters read from the dictionary.
\<close>

definition c_star :: "array \<Rightarrow> array \<Rightarrow> params \<Rightarrow> error + array" where
  "c_star w e par =
     (case getitem par ''gamma'' of
        Inl err \<Rightarrow> Inl err
      | Inr g \<Rightarrow>
          (case getitem par ''tau'' of
             Inl err \<Rightarrow> Inl err
           | Inr t \<Rightarrow> broadcast2 (c_star_val g t) w e))"

text \<open>
  Modelled from the spec: \<^verbatim>\<open>model.l_star(w,e,par)\<close> on arrays, the labor formula of
  spec 4.1 applied elementwise with the parameters read from the dictionary.
\<close>

definition l_star :: "array \<Rightarrow> array \<Rightarrow> params \<Rightarrow> error + array" where
  "l_star w e par =
     (case getitem par ''gamma'' of
        Inl err \<Rightarrow> Inl err
      | Inr g \<Rightarrow>
          (case getitem par ''tau'' of
             Inl err \<Rightarrow> Inl err
           | Inr t \<Rightarrow> broadcast2 (l_star_val g t) w e))"

section \<open>The observed dataset\<close>

text \<open>
  The notebook's data cell:
  \<^verbatim>\<open>
  par = dict(); par['gamma'] = 0.5; par['tau'] = 0.2; par['sigma'] = 1.0
  np.random.seed(2019); n = 10000
  w = np.exp(np.random.normal(size=n))
  e = par['sigma']*np.random.normal(size=n)
  con = model.c_star(w,e,par)
  lab = model.l_star(w,e,par)
  \<close>
  The seeded generator is a stream \<open>rng\<close> of standard normal draws (finite reals): the
  first \<open>n\<close> draws become the log-wages, the next \<open>n\<close> the shocks.
\<close>

definition true_par :: params where
  "true_par = [''gamma'' \<mapsto> 1 / 2, ''tau'' \<mapsto> 1 / 5, ''sigma'' \<mapsto> 1]"

definition draw_wages :: "(nat \<Rightarrow> real) \<Rightarrow> nat \<Rightarrow> array" where
  "draw_wages rng n = map (\<lambda>i. Fin (exp (rng i))) [0..<n]"

definition draw_shocks :: "params \<Rightarrow> (nat \<Rightarrow> real) \<Rightarrow> nat \<Rightarrow> error + array" where
  "draw_shocks par rng n =
     (case getitem par ''sigma'' of
        Inl err \<Rightarrow> Inl err
      | Inr s \<Rightarrow> Inr (map (\<lambda>i. np_mul (Fin s) (Fin (rng (n + i)))) [0..<n]))"

text \<open>The choices computed from given wages and shocks: \<open>(con, lab)\<close>.\<close>

definition choices :: "array \<Rightarrow> array \<Rightarrow> params \<Rightarrow> error + array \<times> array" where
  "choices w e par =
     (case c_star w e par of
        Inl err \<Rightarrow> Inl err
      | Inr con \<Rightarrow>
          (case l_star w e par of
             Inl err \<Rightarrow> Inl err
           | Inr lab \<Rightarrow> Inr (con, lab)))"

definition observed_data :: "params \<Rightarrow> (nat \<Rightarrow> real) \<Rightarrow> nat \<Rightarrow> error + array \<times> array \<times> array" where
  "observed_data par rng n =
     (let w = draw_wages rng n in
      case draw_shocks par rng n of
        Inl err \<Rightarrow> Inl err
      | Inr e \<Rightarrow>
          (case choices w e par of
             Inl err \<Rightarrow> Inl err
           | Inr (con, lab) \<Rightarrow> Inr (w, con, lab)))"

section \<open>Statistics of finite data\<close>






section \<open>Exact arithmetic\<close>

text \<open>With \<open>r = Fin\<close> nothing is rounded, and a sum is \<^const>\<open>sum_list\<close>.\<close>

lemma fl_exact: "fl Fin x = x"
  by (cases x) simp_all

lemma fl_ops_exact:
  "fl_add Fin = np_add" "fl_sub Fin = np_sub" "fl_mul Fin = np_mul" "fl_div Fin = np_div"
  "fl_sqrt Fin = np_sqrt"
  by (simp_all add: fun_eq_iff fl_add_def fl_sub_def fl_mul_def fl_div_def fl_sqrt_def fl_exact)

lemma foldl_np_add: "foldl np_add x xs = x + sum_list xs"
  by (induction xs arbitrary: x) (simp_all add: plus_npfloat_def [symmetric] add.assoc)

lemma np_sum_exact: "np_sum Fin xs = sum_list xs"
  by (cases xs) (simp_all add: fl_ops_exact foldl_np_add zero_npfloat_def)

lemma np_mean_exact: "np_mean Fin a = np_div (sum_list a) (Fin (real (length a)))"
  by (simp add: np_mean_def fl_ops_exact np_sum_exact)

lemma np_var_exact:
  "np_var Fin a ddof =
     (let arrmean = np_div (sum_list a) (Fin (real (length a)));
          x = map (\<lambda>v. np_sub v arrmean) a;
          ret = sum_list (map (\<lambda>v. np_mul v v) x);
          rcount = max (int (length a) - int ddof) 0
      in np_div ret (Fin (real_of_int rcount)))"
  by (simp add: np_var_def fl_ops_exact np_sum_exact)

lemma np_dot_exact: "np_dot Fin xs ys = sum_list (map2 np_mul xs ys)"
  by (simp add: np_dot_def fl_ops_exact np_sum_exact)

lemma np_cov_exact:
  "np_cov Fin x y =
     (if length x \<noteq> length y then Inl ValueError
      else
        let fact = int (length x) - 1;
            fact = (if fact \<le> 0 then 0 else fact);
            dx = map (\<lambda>v. np_sub v (np_mean Fin x)) x;
            dy = map (\<lambda>v. np_sub v (np_mean Fin y)) y;
            s = np_div (Fin 1) (Fin (real_of_int fact))
        in Inr ((np_mul (np_dot Fin dx dx) s, np_mul (np_dot Fin dx dy) s),
                (np_mul (np_dot Fin dy dx) s, np_mul (np_dot Fin dy dy) s)))"
  by (simp add: np_cov_def fl_ops_exact)


section \<open>Sums, means and variances of finite arrays\<close>








section \<open>Covariance and correlation\<close>




section \<open>Pearson correlation\<close>









section \<open>Reordering the individuals\<close>

lemma sum_list_mset_cong:
  fixes xs ys :: "'a::comm_monoid_add list"
  shows "mset xs = mset ys \<Longrightarrow> sum_list xs = sum_list ys"
  by (metis sum_mset_sum_list)

lemma sum_list_map_mset_cong:
  fixes f :: "'b \<Rightarrow> 'a::comm_monoid_add"
  shows "mset xs = mset ys \<Longrightarrow> sum_list (map f xs) = sum_list (map f ys)"
  by (rule sum_list_mset_cong) simp

lemma mset_permute:
  assumes "mset idx = mset [0..<length a]"
  shows "mset (permute idx a) = mset a"
proof -
  have "mset (permute idx a) = image_mset (\<lambda>i. a ! i) (mset idx)"
    by (simp add: permute_def)
  also have "\<dots> = mset (map (\<lambda>i. a ! i) [0..<length a])"
    using assms by simp
  also have "\<dots> = mset a"
    by (simp add: map_nth)
  finally show ?thesis .
qed

lemma length_permute:
  assumes "mset idx = mset [0..<n]"
  shows "length (permute idx a) = n"
proof -
  have "length idx = size (mset idx)" by simp
  also have "\<dots> = n" using assms by simp
  finally show ?thesis by (simp add: permute_def)
qed

lemma zip_permute:
  assumes "mset idx = mset [0..<n]" "length a = n" "length b = n"
  shows "zip (permute idx a) (permute idx b) = permute idx (zip a b)"
proof -
  have "set idx = {0..<n}"
    using assms(1) by (metis mset_eq_setD set_upt)
  then have "\<forall>i\<in>set idx. zip a b ! i = (a ! i, b ! i)"
    using assms by simp
  then show ?thesis
    by (simp add: permute_def zip_map_map zip_same_conv_map)
qed

lemma np_mean_permute:
  assumes "mset idx = mset [0..<length a]"
  shows "np_mean Fin (permute idx a) = np_mean Fin a"
  using sum_list_mset_cong [OF mset_permute [OF assms]] length_permute [OF assms, of a]
  by (simp add: np_mean_exact)

lemma np_var_permute:
  assumes "mset idx = mset [0..<length a]"
  shows "np_var Fin (permute idx a) d = np_var Fin a d"
proof -
  have s: "sum_list (permute idx a) = sum_list a"
    by (rule sum_list_mset_cong [OF mset_permute [OF assms]])
  have l: "length (permute idx a) = length a"
    by (rule length_permute [OF assms])
  have "sum_list (map f (permute idx a)) = sum_list (map f a)" for f :: "npfloat \<Rightarrow> npfloat"
    by (rule sum_list_map_mset_cong [OF mset_permute [OF assms]])
  then show ?thesis
    by (simp add: np_var_exact Let_def s l)
qed

lemma np_dot_zip: "np_dot Fin (map f xs) (map g ys) = (\<Sum>(x, y)\<leftarrow>zip xs ys. np_mul (f x) (g y))"
  by (simp add: np_dot_exact zip_map_map split_def comp_def)

lemma np_dot_permute:
  assumes "mset idx = mset [0..<n]" "length a = n" "length b = n"
  shows "np_dot Fin (map f (permute idx a)) (map g (permute idx b)) = np_dot Fin (map f a) (map g b)"
proof -
  have "mset (permute idx (zip a b)) = mset (zip a b)"
    using assms by (intro mset_permute) simp
  then show ?thesis
    unfolding np_dot_zip zip_permute [OF assms]
    by (rule sum_list_map_mset_cong)
qed

lemma np_cov_permute:
  assumes "mset idx = mset [0..<n]" "length a = n" "length b = n"
  shows "np_cov Fin (permute idx a) (permute idx b) = np_cov Fin a b"
proof -
  have ia: "mset idx = mset [0..<length a]" and ib: "mset idx = mset [0..<length b]"
    using assms by simp_all
  note dots = np_dot_permute [OF assms(1) assms(2) assms(2)]
    np_dot_permute [OF assms]
    np_dot_permute [OF assms(1) assms(3) assms(2)]
    np_dot_permute [OF assms(1) assms(3) assms(3)]
  show ?thesis
    unfolding np_cov_exact Let_def np_mean_permute [OF ia] np_mean_permute [OF ib]
      length_permute [OF assms(1)] dots
    using assms by simp
qed

section \<open>Rounding to float64\<close>

text \<open>
  The value of \<^const>\<open>round64\<close> at a given \<open>x\<close> is read off from the exponent \<open>e\<close>
  of \<open>x\<close> and the integer \<open>m\<close> nearest to \<open>x / 2^(e-52)\<close>.
\<close>

lemma pow2_powr: "pow2 k = 2 powr (real_of_int k)"
proof (cases "0 \<le> k")
  case True
  then have "(2::real) powr real_of_int k = 2 powr real (nat k)" by simp
  also have "\<dots> = 2 ^ nat k" by (rule powr_realpow) simp
  finally show ?thesis using True by (simp add: pow2_def)
next
  case False
  then have "(2::real) powr real_of_int k = 2 powr (- real (nat (- k)))" by simp
  also have "\<dots> = 1 / 2 powr real (nat (- k))" by (rule powr_minus_divide)
  also have "(2::real) powr real (nat (- k)) = 2 ^ nat (- k)" by (rule powr_realpow) simp
  finally show ?thesis using False by (simp add: pow2_def)
qed

lemma floor_log2:
  assumes "pow2 e \<le> \<bar>x\<bar>" and "\<bar>x\<bar> < pow2 (e + 1)"
  shows "\<lfloor>log 2 \<bar>x\<bar>\<rfloor> = e"
proof -
  have "0 < pow2 e" by (simp add: pow2_powr)
  with assms(1) have pos: "0 < \<bar>x\<bar>" by linarith
  have "2 powr real_of_int e \<le> \<bar>x\<bar> \<and> \<bar>x\<bar> < 2 powr real_of_int (e + 1)"
    using assms by (simp add: pow2_powr)
  then show ?thesis
    using floor_log_eq_powr_iff [of "\<bar>x\<bar>" 2 e] pos by simp
qed

lemma below_overflow:
  fixes y :: real
  assumes "\<bar>y\<bar> \<le> 2 ^ 64"
  shows "\<not> pow2 1024 \<le> \<bar>y\<bar>"
proof -
  have "(2::real) ^ 64 < 2 ^ 1024"
    by (rule power_strict_increasing) simp_all
  then show ?thesis using assms by (simp add: pow2_def)
qed

lemma round64_eval:
  assumes "x \<noteq> 0" and "- 1022 \<le> e" and "pow2 e \<le> \<bar>x\<bar>" and "\<bar>x\<bar> < pow2 (e + 1)"
    and "round_even (x / pow2 (e - 52)) = m" and "\<bar>pow2 (e - 52) * of_int m\<bar> \<le> 2 ^ 64"
  shows "round64 x = Fin (pow2 (e - 52) * of_int m)"
proof -
  have e: "max \<lfloor>log 2 \<bar>x\<bar>\<rfloor> (- 1022) = e"
    using floor_log2 [OF assms(3,4)] assms(2) by simp
  show ?thesis
    unfolding round64_def Let_def e assms(5)
    using assms(1) below_overflow [OF assms(6)] by simp
qed

text \<open>
  The roundings met in the examples below. Small integers, \<open>1/2\<close> and \<open>1e16\<close> are
  float64 numbers; \<open>1/3\<close> and \<open>2/3\<close> are not; \<open>1e16 + 1\<close> lies half way between two
  float64 numbers and goes to the even one, \<open>1e16\<close>.
\<close>

lemma round64_0: "round64 0 = Fin 0"
  by (simp add: round64_def)

lemma round64_1: "round64 1 = Fin 1"
  using round64_eval [of 1 0 "2 ^ 52"] by (simp add: pow2_def round_even_def)

lemma round64_2: "round64 2 = Fin 2"
  using round64_eval [of 2 1 "2 ^ 52"] by (simp add: pow2_def round_even_def)

lemma round64_3: "round64 3 = Fin 3"
  using round64_eval [of 3 1 "3 * 2 ^ 51"] by (simp add: pow2_def round_even_def)

lemma round64_third: "round64 (1 / 3) = Fin (6004799503160661 / 18014398509481984)"
  using round64_eval [of "1 / 3" "- 2" 6004799503160661] by (simp add: pow2_def round_even_def)

lemma round64_1e16: "round64 10000000000000000 = Fin 10000000000000000"
  using round64_eval [of 10000000000000000 53 5000000000000000] by (simp add: pow2_def round_even_def)

lemma round64_m1e16: "round64 (- 10000000000000000) = Fin (- 10000000000000000)"
  using round64_eval [of "- 10000000000000000" 53 "- 5000000000000000"] by (simp add: pow2_def round_even_def)

lemma round64_1e16_plus_1: "round64 10000000000000001 = Fin 10000000000000000"
  using round64_eval [of 10000000000000001 53 5000000000000000] by (simp add: pow2_def round_even_def)

lemma round64_half: "round64 (1 / 2) = Fin (1 / 2)"
  using round64_eval [of "1 / 2" "- 1" "2 ^ 52"] by (simp add: pow2_def round_even_def)

lemma round64_m1: "round64 (- 1) = Fin (- 1)"
  using round64_eval [of "- 1" 0 "- (2 ^ 52)"] by (simp add: pow2_def round_even_def)

lemma round64_4: "round64 4 = Fin 4"
  using round64_eval [of 4 2 "2 ^ 52"] by (simp add: pow2_def round_even_def)

lemma round64_two_thirds: "round64 (2 / 3) = Fin (6004799503160661 / 9007199254740992)"
  using round64_eval [of "2 / 3" "- 1" 6004799503160661] by (simp add: pow2_def round_even_def)

text \<open>
  A real number in the range of the normal float64 numbers rounds to a float64 other than
  zero.
\<close>

lemma round_even_close: "\<bar>of_int (round_even z) - z\<bar> \<le> 1 / 2"
proof -
  have "of_int \<lfloor>z\<rfloor> \<le> z" "z < of_int \<lfloor>z\<rfloor> + 1"
    by linarith+
  then show ?thesis
    unfolding round_even_def Let_def by auto
qed

lemma pow2_pos: "0 < pow2 k"
  by (simp add: pow2_powr)

lemma pow2_mono: "a \<le> b \<Longrightarrow> pow2 a \<le> pow2 b"
  by (simp add: pow2_powr)

lemma pow2_add: "pow2 (a + b) = pow2 a * pow2 b"
  by (simp add: pow2_powr powr_add)

lemma round64_normal:
  assumes "- 1022 \<le> e" and "e \<le> 62" and "pow2 e \<le> \<bar>x\<bar>" and "\<bar>x\<bar> < pow2 (e + 1)"
  shows "\<exists>y. round64 x = Fin y \<and> y \<noteq> 0"
proof -
  define q where "q = pow2 (e - 52)"
  define m where "m = round_even (x / q)"
  have q: "0 < q" by (simp add: q_def pow2_pos)
  have x: "x \<noteq> 0" using assms(3) pow2_pos [of e] by auto
  have e: "pow2 e = q * 2 ^ 52"
    using pow2_add [of "e - 52" 52] by (simp add: q_def pow2_def)
  have "2 ^ 52 \<le> \<bar>x\<bar> / q"
    using assms(3) q by (simp add: e field_simps)
  then have z: "2 ^ 52 \<le> \<bar>x / q\<bar>"
    using q by simp
  have c: "\<bar>of_int m - x / q\<bar> \<le> 1 / 2"
    unfolding m_def by (rule round_even_close)
  have "m \<noteq> 0"
  proof
    assume "m = 0"
    with c have "\<bar>x / q\<bar> \<le> 1 / 2" by simp
    with z have "(2::real) ^ 52 \<le> 1 / 2" by linarith
    then show False by simp
  qed
  then have nz: "q * of_int m \<noteq> 0" using q by simp
  have "\<bar>of_int m\<bar> \<le> \<bar>x / q\<bar> + 1 / 2"
    using c by linarith
  then have "q * \<bar>of_int m\<bar> \<le> q * (\<bar>x / q\<bar> + 1 / 2)"
    using q by simp
  also have "\<dots> = \<bar>x\<bar> + q / 2"
    using q by (simp add: field_simps)
  also have "\<dots> \<le> pow2 63 + pow2 10"
    using assms(4) pow2_mono [of "e + 1" 63] pow2_mono [of "e - 52" 10] assms(2) q
    by (simp add: q_def)
  also have "\<dots> \<le> 2 ^ 64"
    by (simp add: pow2_def)
  finally have "\<bar>q * of_int m\<bar> \<le> 2 ^ 64"
    using q by (simp add: abs_mult)
  then have "round64 x = Fin (q * of_int m)"
    unfolding q_def m_def by (intro round64_eval x assms refl)
  with nz show ?thesis by blast
qed

text \<open>
  The roundings met when the moments of three wages of \<open>0.1\<close> are computed: \<open>0.1\<close>
  itself, the sum of three of them and their mean are rounded, the other results are
  exact.
\<close>

lemma round64_tenths_1:
  "round64 (1 / 5192296858534827628530496329220096)
     = Fin (1 / 5192296858534827628530496329220096)"
  using round64_eval [of "1 / 5192296858534827628530496329220096" "- 112" "4503599627370496"]
  by (simp add: pow2_def round_even_def)

lemma round64_tenths_2:
  "round64 (3 / 10384593717069655257060992658440192)
     = Fin (3 / 10384593717069655257060992658440192)"
  using round64_eval [of "3 / 10384593717069655257060992658440192" "- 112" "6755399441055744"]
  by (simp add: pow2_def round_even_def)

lemma round64_tenths_3:
  "round64 (1 / 2596148429267413814265248164610048)
     = Fin (1 / 2596148429267413814265248164610048)"
  using round64_eval [of "1 / 2596148429267413814265248164610048" "- 111" "4503599627370496"]
  by (simp add: pow2_def round_even_def)

lemma round64_tenths_4:
  "round64 (3 / 5192296858534827628530496329220096)
     = Fin (3 / 5192296858534827628530496329220096)"
  using round64_eval [of "3 / 5192296858534827628530496329220096" "- 111" "6755399441055744"]
  by (simp add: pow2_def round_even_def)

lemma round64_tenths_5: "round64 (- (1 / 72057594037927936)) = Fin (- (1 / 72057594037927936))"
  using round64_eval [of "- (1 / 72057594037927936)" "- 56" "- 4503599627370496"]
  by (simp add: pow2_def round_even_def)

lemma round64_tenths_6: "round64 (1 / 72057594037927936) = Fin (1 / 72057594037927936)"
  using round64_eval [of "1 / 72057594037927936" "- 56" "4503599627370496"]
  by (simp add: pow2_def round_even_def)

lemma round64_tenths_7: "round64 (1 / 10) = Fin (3602879701896397 / 36028797018963968)"
  using round64_eval [of "1 / 10" "- 4" "7205759403792794"]
  by (simp add: pow2_def round_even_def)

lemma round64_tenths_8:
  "round64 (3602879701896397 / 36028797018963968)
     = Fin (3602879701896397 / 36028797018963968)"
  using round64_eval [of "3602879701896397 / 36028797018963968" "- 4" "7205759403792794"]
  by (simp add: pow2_def round_even_def)

lemma round64_tenths_9:
  "round64 (1351079888211149 / 13510798882111488)
     = Fin (7205759403792795 / 72057594037927936)"
  using round64_eval [of "1351079888211149 / 13510798882111488" "- 4" "7205759403792795"]
  by (simp add: pow2_def round_even_def)

lemma round64_tenths_10:
  "round64 (3602879701896397 / 18014398509481984)
     = Fin (3602879701896397 / 18014398509481984)"
  using round64_eval [of "3602879701896397 / 18014398509481984" "- 3" "7205759403792794"]
  by (simp add: pow2_def round_even_def)

lemma round64_tenths_11:
  "round64 (10808639105689191 / 36028797018963968)
     = Fin (1351079888211149 / 4503599627370496)"
  using round64_eval [of "10808639105689191 / 36028797018963968" "- 2" "5404319552844596"]
  by (simp add: pow2_def round_even_def)

lemmas round64_tenths =
  round64_tenths_1 round64_tenths_2 round64_tenths_3 round64_tenths_4 round64_tenths_5
  round64_tenths_6 round64_tenths_7 round64_tenths_8 round64_tenths_9 round64_tenths_10
  round64_tenths_11

lemmas round64_values = round64_0 round64_1 round64_2 round64_3 round64_4 round64_m1
  round64_half round64_third round64_two_thirds round64_1e16 round64_m1e16 round64_1e16_plus_1

lemmas fl_eval = fl_add_def fl_sub_def fl_mul_def fl_div_def fl_sqrt_def np_sub_def
  inf_of_sign_def

section \<open>The moment function raises nothing on equal lengths\<close>

lemma corr01_total: "length x = length y \<Longrightarrow> \<exists>c. corr01 r x y = Inr c"
  by (auto simp: corr01_def np_corrcoef_def np_cov_def Let_def)

lemma moments_fun_shape:
  assumes "length w = length con"
  shows "\<exists>c. corr01 r w con = Inr c
           \<and> moments_fun r w con lab = Inr [c, np_mean r lab, np_var r con 0]"
proof -
  from corr01_total [OF assms] obtain c where "corr01 r w con = Inr c" ..
  then show ?thesis by (simp add: moments_fun_def)
qed

text \<open>
  With at most one observation the factor \<open>1 / (N - 1)\<close> of \<^verbatim>\<open>np.cov\<close> is
  \<open>1 / 0.0 = inf\<close>, every entry of the covariance matrix is \<open>inf\<close>, \<open>-inf\<close> or
  \<open>nan\<close>, and its quotient by the square roots of the diagonal is \<open>nan\<close>.
\<close>

lemma fl_not_finite: "\<not> is_finite x \<Longrightarrow> fl r x = x"
  by (cases x) simp_all

lemma np_mul_PInf_not_finite: "\<not> is_finite (np_mul x PInf)"
  by (cases x) (simp_all add: inf_of_sign_def)

lemma fl_mul_PInf_not_finite: "\<not> is_finite (fl_mul r x PInf)"
  by (simp add: fl_mul_def fl_not_finite np_mul_PInf_not_finite)

lemma fl_sqrt_not_finite: "\<not> is_finite a \<Longrightarrow> fl_sqrt r a = NaN \<or> fl_sqrt r a = PInf"
  by (cases a) (simp_all add: fl_sqrt_def)

lemma fl_div_not_finite:
  assumes "\<not> is_finite c" and "s = NaN \<or> s = PInf"
  shows "fl_div r c s = NaN"
  using assms by (cases c) (auto simp: fl_div_def)

lemma fl_div_NaN: "fl_div r NaN s = NaN"
  by (simp add: fl_div_def)

lemma corr_entry_not_finite:
  assumes "\<not> is_finite c" and "\<not> is_finite a"
  shows "np_clip (- 1) 1 (fl_div r (fl_div r c (fl_sqrt r a)) s) = NaN"
  using fl_div_not_finite [OF assms(1) fl_sqrt_not_finite [OF assms(2)]]
  by (simp add: fl_div_NaN)

lemma corr01_short:
  assumes "length x = length y" and "length x \<le> 1"
  shows "corr01 r x y = Inr NaN"
proof -
  have s: "fl_div r (Fin 1)
      (Fin (real_of_int (if int (length x) - 1 \<le> 0 then 0 else int (length x) - 1))) = PInf"
    using assms(2) by (simp add: fl_div_def inf_of_sign_def)
  show ?thesis
    unfolding corr01_def np_corrcoef_def np_cov_def Let_def s
    using assms(1)
    by (simp add: corr_entry_not_finite fl_mul_PInf_not_finite)
qed

section \<open>Three equal wages of 0.1\<close>

text \<open>
  The float64 number written \<open>0.1\<close> is \<open>3602879701896397 / 2^55\<close>. The sum of three
  of them rounds up, so their computed mean is the next float64 above, every deviation
  from it is \<open>-2^(-56)\<close> and the computed variance is \<open>2^(-112)\<close>, not zero.
\<close>

lemma cov_tenths:
  "np_cov round64
     [Fin (3602879701896397 / 36028797018963968), Fin (3602879701896397 / 36028797018963968),
      Fin (3602879701896397 / 36028797018963968)] [Fin 0, Fin 1, Fin 2]
   = Inr ((Fin (3 / 10384593717069655257060992658440192), Fin 0), (Fin 0, Fin 1))"
  by (simp add: np_cov_def np_dot_def np_mean_def fl_eval round64_values round64_tenths)

lemma var_tenths:
  "np_var round64
     [Fin (3602879701896397 / 36028797018963968), Fin (3602879701896397 / 36028797018963968),
      Fin (3602879701896397 / 36028797018963968)] 0
   = Fin (1 / 2 ^ 112)"
  by (simp add: np_var_def fl_eval round64_values round64_tenths)

lemma sqrt_c00:
  "\<exists>y. fl_sqrt round64 (Fin (3 / 10384593717069655257060992658440192)) = Fin y \<and> y \<noteq> 0"
proof -
  let ?c = "3 / 10384593717069655257060992658440192 :: real"
  have "pow2 (- 56) \<le> sqrt ?c"
    by (rule real_le_rsqrt) (simp add: pow2_def power2_eq_square)
  moreover have "sqrt ?c < pow2 (- 56 + 1)"
    by (rule real_less_lsqrt) (simp_all add: pow2_def power2_eq_square)
  ultimately obtain y where "round64 (sqrt ?c) = Fin y" "y \<noteq> 0"
    using round64_normal [of "- 56" "sqrt ?c"] by auto
  then show ?thesis
    by (simp add: fl_sqrt_def)
qed

lemma moments_fun_tenths:
  "moments_fun round64
     [Fin (3602879701896397 / 36028797018963968), Fin (3602879701896397 / 36028797018963968),
      Fin (3602879701896397 / 36028797018963968)] [Fin 0, Fin 1, Fin 2] [Fin 1, Fin 1, Fin 1]
   = Inr [Fin 0, Fin 1, Fin (6004799503160661 / 9007199254740992)]"
proof -
  from sqrt_c00 obtain y where
    s0: "fl_sqrt round64 (Fin (3 / 10384593717069655257060992658440192)) = Fin y" and y: "y \<noteq> 0"
    by blast
  have s1: "fl_sqrt round64 (Fin 1) = Fin 1"
    by (simp add: fl_sqrt_def round64_1)
  have d: "fl_div round64 (fl_div round64 (Fin 0) (Fin y)) (Fin 1) = Fin 0"
    using y by (simp add: fl_div_def round64_0)
  have "corr01 round64
     [Fin (3602879701896397 / 36028797018963968), Fin (3602879701896397 / 36028797018963968),
      Fin (3602879701896397 / 36028797018963968)] [Fin 0, Fin 1, Fin 2] = Inr (Fin 0)"
    unfolding corr01_def np_corrcoef_def cov_tenths
    by (simp add: Let_def s0 s1 d)
  then show ?thesis
    unfolding moments_fun_def
    by (simp add: np_mean_def np_var_def fl_eval round64_values)
qed

section \<open>The structural model: closed forms\<close>

lemma getitem_Some: "par k = Some v \<Longrightarrow> getitem par k = Inr v"
  by (simp add: getitem_def)

lemma draw_wages_Fin: "draw_wages rng n = map Fin (map (\<lambda>i. exp (rng i)) [0..<n])"
  by (simp add: draw_wages_def)

lemma draw_shocks_Fin:
  "par ''sigma'' = Some s \<Longrightarrow>
     draw_shocks par rng n = Inr (map Fin (map (\<lambda>i. s * rng (n + i)) [0..<n]))"
  by (simp add: draw_shocks_def getitem_Some)

lemma c_star_val_Fin: "c_star_val g t (Fin w) (Fin e) = Fin (g * (1 - t) * w + g * e)"
  by (simp add: c_star_val_def)

lemma map2_Fin: "map2 f (map Fin ws) (map Fin es) = map2 (\<lambda>w e. f (Fin w) (Fin e)) ws es"
  by (simp add: zip_map_map split_def)

lemma l_star_val_Fin:
  "(1 - t) * w \<noteq> 0 \<Longrightarrow>
     l_star_val g t (Fin w) (Fin e) = Fin (1 - ((1 - g) + (1 - g) * e / ((1 - t) * w)))"
  by (simp add: l_star_val_def np_sub_def)

lemma c_star_Fin:
  assumes "par ''gamma'' = Some g" and "par ''tau'' = Some t" and "length ws = length es"
  shows "c_star (map Fin ws) (map Fin es) par
           = Inr (map2 (\<lambda>w e. Fin (g * (1 - t) * w + g * e)) ws es)"
  using assms
  by (simp add: c_star_def getitem_Some broadcast2_def map2_Fin c_star_val_Fin)

lemma l_star_Fin:
  assumes "par ''gamma'' = Some g" and "par ''tau'' = Some t" and "length ws = length es"
    and "\<forall>w\<in>set ws. (1 - t) * w \<noteq> 0"
  shows "l_star (map Fin ws) (map Fin es) par
           = Inr (map2 (\<lambda>w e. Fin (1 - ((1 - g) + (1 - g) * e / ((1 - t) * w)))) ws es)"
proof -
  have "map2 (\<lambda>w e. l_star_val g t (Fin w) (Fin e)) ws es
          = map2 (\<lambda>w e. Fin (1 - ((1 - g) + (1 - g) * e / ((1 - t) * w)))) ws es"
    using assms(4) by (auto simp: l_star_val_Fin dest: set_zip_leftD)
  with assms(1,2,3) show ?thesis
    by (simp add: l_star_def getitem_Some broadcast2_def map2_Fin)
qed

lemma choices_Fin:
  assumes "par ''gamma'' = Some g" and "par ''tau'' = Some t" and "length ws = length es"
    and "\<forall>w\<in>set ws. (1 - t) * w \<noteq> 0"
  shows "choices (map Fin ws) (map Fin es) par
           = Inr (map Fin (map2 (\<lambda>w e. g * (1 - t) * w + g * e) ws es),
                  map Fin (map2 (\<lambda>w e. 1 - ((1 - g) + (1 - g) * e / ((1 - t) * w))) ws es))"
  by (simp add: choices_def c_star_Fin [OF assms(1,2,3)] l_star_Fin [OF assms] split_def)

text \<open>
  Claim C2. For every real wage \<open>w\<close> and shock \<open>e\<close> and any parameters \<open>gamma\<close> and
  \<open>tau\<close>, the consumption function returns \<open>gamma (1-tau) w + gamma e\<close>, elementwise
  on arrays of equal length; with a zero shock it returns \<open>gamma (1-tau) w\<close>.
\<close>

theorem c_star_closed_form:
  assumes "par ''gamma'' = Some g" and "par ''tau'' = Some t" and "length ws = length es"
  shows "c_star (map Fin ws) (map Fin es) par
           = Inr (map2 (\<lambda>w e. Fin (g * (1 - t) * w + g * e)) ws es)
         \<and> c_star [Fin w] [Fin 0] par = Inr [Fin (g * (1 - t) * w)]"
  using c_star_Fin [OF assms] c_star_Fin [OF assms(1,2), of "[w]" "[0]"]
  by simp

theorem c_star_closed_form_witness:
  "c_star (map Fin [1, 2]) (map Fin [0, 3]) true_par = Inr [Fin (2 / 5), Fin (23 / 10)]
   \<and> c_star [Fin 5] [Fin 0] true_par = Inr [Fin 2]"
  using c_star_closed_form [of true_par "1 / 2" "1 / 5" "[1, 2]" "[0, 3]" 5]
  by (simp add: true_par_def)

text \<open>
  Claim C10. Every wage of the observed dataset is the exponential of a normal draw and so
  strictly positive; for \<open>tau < 1\<close> the divisor \<open>(1-tau) w\<close> of \<^verbatim>\<open>l_star\<close> is then
  never zero, the data cell raises nothing, and every consumption and labor value is
  finite.
\<close>

theorem observed_data_finite:
  assumes "par ''gamma'' = Some g" and "par ''tau'' = Some t" and "par ''sigma'' = Some s"
    and "t < 1"
  shows "\<exists>con lab. observed_data par rng n = Inr (draw_wages rng n, con, lab)
           \<and> (\<forall>w\<in>set (draw_wages rng n). \<exists>x. w = Fin x \<and> 0 < x \<and> (1 - t) * x \<noteq> 0)
           \<and> (\<forall>c\<in>set con. is_finite c) \<and> (\<forall>l\<in>set lab. is_finite l)"
proof -
  let ?ws = "map (\<lambda>i. exp (rng i)) [0..<n]" and ?es = "map (\<lambda>i. s * rng (n + i)) [0..<n]"
  have pos: "\<forall>w\<in>set ?ws. 0 < w \<and> (1 - t) * w \<noteq> 0"
    using assms(4) by auto
  then have nz: "\<forall>w\<in>set ?ws. (1 - t) * w \<noteq> 0" by blast
  have len: "length ?ws = length ?es" by simp
  have "observed_data par rng n
      = Inr (draw_wages rng n,
             map Fin (map2 (\<lambda>w e. g * (1 - t) * w + g * e) ?ws ?es),
             map Fin (map2 (\<lambda>w e. 1 - ((1 - g) + (1 - g) * e / ((1 - t) * w))) ?ws ?es))"
    unfolding observed_data_def Let_def draw_shocks_Fin [of par s rng n, OF assms(3)] sum.case
    unfolding draw_wages_Fin choices_Fin [OF assms(1,2) len nz]
    by simp
  moreover have "\<forall>w\<in>set (draw_wages rng n). \<exists>x. w = Fin x \<and> 0 < x \<and> (1 - t) * x \<noteq> 0"
    unfolding draw_wages_Fin using pos by auto
  moreover have "\<forall>c\<in>set (map Fin xs). is_finite c" for xs
    by simp
  ultimately show ?thesis by blast
qed

theorem observed_data_finite_witness:
  "observed_data true_par (\<lambda>i. 0) 2
     = Inr ([Fin 1, Fin 1], [Fin (2 / 5), Fin (2 / 5)], [Fin (1 / 2), Fin (1 / 2)])"
  using observed_data_finite [of true_par "1 / 2" "1 / 5" 1 "\<lambda>i. 0" 2]
  by (simp add: true_par_def observed_data_def draw_wages_def draw_shocks_def choices_def
      c_star_def l_star_def getitem_def broadcast2_def c_star_val_def l_star_val_def
      np_sub_def numeral_2_eq_2 Let_def)

section \<open>The moment vector\<close>





text \<open>
  Claim C7, in exact arithmetic. Applying one permutation of the individuals to the three
  input vectors of equal length leaves the moment vector unchanged when no operation
  rounds: the sums are reordered, and addition of exact values is commutative and
  associative.
\<close>

theorem moments_fun_permutation_invariant:
  assumes "mset idx = mset [0..<n]"
    and "length w = n" and "length con = n" and "length lab = n"
  shows "moments_fun Fin (permute idx w) (permute idx con) (permute idx lab)
           = moments_fun Fin w con lab"
proof -
  have c: "mset idx = mset [0..<length con]" and l: "mset idx = mset [0..<length lab]"
    using assms by simp_all
  have r: "corr01 Fin (permute idx w) (permute idx con) = corr01 Fin w con"
    by (simp add: corr01_def np_corrcoef_def np_cov_permute [OF assms(1,2,3)])
  show ?thesis
    unfolding moments_fun_def r np_mean_permute [OF l] np_var_permute [OF c] ..
qed

theorem moments_fun_permutation_invariant_witness:
  "moments_fun Fin (permute [2, 0, 1] [Fin 1, Fin 2, Fin 4])
       (permute [2, 0, 1] [Fin 3, Fin 5, Fin 6]) (permute [2, 0, 1] [Fin 0, PInf, Fin 1])
     = moments_fun Fin [Fin 1, Fin 2, Fin 4] [Fin 3, Fin 5, Fin 6] [Fin 0, PInf, Fin 1]
   \<and> permute [2, 0, 1] [Fin 1, Fin 2, Fin 4] = [Fin 4, Fin 1, Fin 2]"
proof -
  have "mset [2, 0, 1 :: nat] = mset [0..<3]"
    by (simp add: upt_rec add_mset_commute)
  from moments_fun_permutation_invariant [OF this, of "[Fin 1, Fin 2, Fin 4]"
      "[Fin 3, Fin 5, Fin 6]" "[Fin 0, PInf, Fin 1]"]
  show ?thesis by (simp add: permute_def)
qed

text \<open>
  Claim C7 as worded fails in float64 arithmetic, where the order of the additions
  matters. The labor values \<open>1e16, 1, -1e16\<close> are float64 numbers; summed in this order
  the \<open>1\<close> is lost (\<open>1e16 + 1\<close> rounds to \<open>1e16\<close>) and the mean is \<open>0.0\<close>; with
  the last two individuals exchanged the sum is \<open>1\<close> and the mean is the float64 nearest
  to \<open>1/3\<close>. So exchanging two individuals changes the second moment.
\<close>

theorem moments_fun_float64_order_dependent:
  "mset [0, 2, 1] = mset [0..<3]
   \<and> round64 10000000000000000 = Fin 10000000000000000
   \<and> round64 (- 10000000000000000) = Fin (- 10000000000000000)
   \<and> round64 1 = Fin 1
   \<and> permute [0, 2, 1] [Fin 10000000000000000, Fin 1, Fin (- 10000000000000000)]
       = [Fin 10000000000000000, Fin (- 10000000000000000), Fin 1]
   \<and> np_mean round64 [Fin 10000000000000000, Fin 1, Fin (- 10000000000000000)] = Fin 0
   \<and> np_mean round64 [Fin 10000000000000000, Fin (- 10000000000000000), Fin 1]
       = Fin (6004799503160661 / 18014398509481984)
   \<and> moments_fun round64 (permute [0, 2, 1] [Fin 1, Fin 2, Fin 3])
         (permute [0, 2, 1] [Fin 1, Fin 2, Fin 3])
         (permute [0, 2, 1] [Fin 10000000000000000, Fin 1, Fin (- 10000000000000000)])
       \<noteq> moments_fun round64 [Fin 1, Fin 2, Fin 3] [Fin 1, Fin 2, Fin 3]
           [Fin 10000000000000000, Fin 1, Fin (- 10000000000000000)]"
proof -
  have p: "mset [0, 2, 1 :: nat] = mset [0..<3]"
    by (simp add: upt_rec add_mset_commute)
  have q: "permute [0, 2, 1] [a, b, c] = [a, c, b]" for a b c :: npfloat
    by (simp add: permute_def)
  have m1: "np_mean round64 [Fin 10000000000000000, Fin 1, Fin (- 10000000000000000)] = Fin 0"
    by (simp add: np_mean_def fl_eval round64_values)
  have m2: "np_mean round64 [Fin 10000000000000000, Fin (- 10000000000000000), Fin 1]
      = Fin (6004799503160661 / 18014398509481984)"
    by (simp add: np_mean_def fl_eval round64_values)
  obtain c1 where s1: "moments_fun round64 [Fin 1, Fin 3, Fin 2] [Fin 1, Fin 3, Fin 2]
      [Fin 10000000000000000, Fin (- 10000000000000000), Fin 1]
      = Inr [c1, Fin (6004799503160661 / 18014398509481984),
             np_var round64 [Fin 1, Fin 3, Fin 2] 0]"
    using moments_fun_shape [of "[Fin 1, Fin 3, Fin 2]" "[Fin 1, Fin 3, Fin 2]" round64
        "[Fin 10000000000000000, Fin (- 10000000000000000), Fin 1]"]
    unfolding m2 by auto
  obtain c2 where s2: "moments_fun round64 [Fin 1, Fin 2, Fin 3] [Fin 1, Fin 2, Fin 3]
      [Fin 10000000000000000, Fin 1, Fin (- 10000000000000000)]
      = Inr [c2, Fin 0, np_var round64 [Fin 1, Fin 2, Fin 3] 0]"
    using moments_fun_shape [of "[Fin 1, Fin 2, Fin 3]" "[Fin 1, Fin 2, Fin 3]" round64
        "[Fin 10000000000000000, Fin 1, Fin (- 10000000000000000)]"]
    unfolding m1 by auto
  show ?thesis
    unfolding q s1 s2 m1 m2
    using p by (simp add: round64_values)
qed

text \<open>
  Claim C6, as the code behaves. On wage and consumption vectors of equal length the moment
  function signals no error, whatever the data: with at most one observation, or with a
  constant wage or consumption vector, it returns a vector of three entries like on any
  other data (NumPy emits a warning only). With at most one observation the correlation
  entry of this vector is \<open>nan\<close>, however the float operations round.
\<close>

theorem moments_fun_degenerate_no_error:
  assumes "length w = length con"
  shows "\<exists>c. moments_fun r w con lab = Inr [c, np_mean r lab, np_var r con 0]
           \<and> (length w \<le> 1 \<longrightarrow> c = NaN)"
proof -
  from moments_fun_shape [OF assms] obtain c where
    c: "corr01 r w con = Inr c"
      "moments_fun r w con lab = Inr [c, np_mean r lab, np_var r con 0]"
    by blast
  have "c = NaN" if "length w \<le> 1"
    using corr01_short [OF assms that, of r] c(1) by simp
  with c(2) show ?thesis by blast
qed

theorem moments_fun_degenerate_no_error_witness:
  "moments_fun round64 [Fin 2] [Fin 3] [Fin 1, Fin 3] = Inr [NaN, Fin 2, Fin 0]"
  using moments_fun_degenerate_no_error [of "[Fin 2]" "[Fin 3]" round64 "[Fin 1, Fin 3]"]
  by (auto simp: np_mean_def np_var_def fl_eval round64_values)

text \<open>
  Claim C6 as worded fails. In float64 arithmetic a single observation, and the constant
  wages \<open>1, 1, 1\<close>, give a result whose correlation entry is \<open>nan\<close>; the constant wages
  \<open>0.1, 0.1, 0.1\<close>, whose computed variance is \<open>2^(-112)\<close>, give the correlation
  \<open>0.0\<close>; the empty dataset gives three \<open>nan\<close>. No error is signalled in any of
  these cases.
\<close>

theorem moments_fun_degenerate_returns:
  "moments_fun round64 [Fin 1] [Fin 2] [Fin 3] = Inr [NaN, Fin 3, Fin 0]
   \<and> moments_fun round64 [Fin 1, Fin 1, Fin 1] [Fin 0, Fin 1, Fin 2] [Fin 1, Fin 1, Fin 1]
       = Inr [NaN, Fin 1, Fin (6004799503160661 / 9007199254740992)]
   \<and> round64 (1 / 10) = Fin (3602879701896397 / 36028797018963968)
   \<and> moments_fun round64
         [Fin (3602879701896397 / 36028797018963968), Fin (3602879701896397 / 36028797018963968),
          Fin (3602879701896397 / 36028797018963968)] [Fin 0, Fin 1, Fin 2] [Fin 1, Fin 1, Fin 1]
       = Inr [Fin 0, Fin 1, Fin (6004799503160661 / 9007199254740992)]
   \<and> np_var round64
         [Fin (3602879701896397 / 36028797018963968), Fin (3602879701896397 / 36028797018963968),
          Fin (3602879701896397 / 36028797018963968)] 0
       = Fin (1 / 2 ^ 112)
   \<and> (\<forall>r. moments_fun r [] [] [] = Inr [NaN, NaN, NaN])"
proof (intro conjI allI)
  show "moments_fun round64 [Fin 1] [Fin 2] [Fin 3] = Inr [NaN, Fin 3, Fin 0]"
    by (simp add: moments_fun_def corr01_short np_mean_def np_var_def fl_eval round64_values)
  show "moments_fun round64 [Fin 1, Fin 1, Fin 1] [Fin 0, Fin 1, Fin 2] [Fin 1, Fin 1, Fin 1]
      = Inr [NaN, Fin 1, Fin (6004799503160661 / 9007199254740992)]"
    by (simp add: moments_fun_def corr01_def np_corrcoef_def np_cov_def np_dot_def
        np_mean_def np_var_def fl_eval round64_values)
  show "round64 (1 / 10) = Fin (3602879701896397 / 36028797018963968)"
    by (rule round64_tenths_7)
  show "moments_fun round64
         [Fin (3602879701896397 / 36028797018963968), Fin (3602879701896397 / 36028797018963968),
          Fin (3602879701896397 / 36028797018963968)] [Fin 0, Fin 1, Fin 2] [Fin 1, Fin 1, Fin 1]
       = Inr [Fin 0, Fin 1, Fin (6004799503160661 / 9007199254740992)]"
    by (rule moments_fun_tenths)
  show "np_var round64
         [Fin (3602879701896397 / 36028797018963968), Fin (3602879701896397 / 36028797018963968),
          Fin (3602879701896397 / 36028797018963968)] 0
       = Fin (1 / 2 ^ 112)"
    by (rule var_tenths)
  show "moments_fun r [] [] [] = Inr [NaN, NaN, NaN]" for r
    by (simp add: moments_fun_def corr01_short np_mean_def np_var_def fl_eval)
qed

end
